theory Spec2Isabelle
  imports Main "HOL-Library.Sublist"
begin

section \<open>Text primitives\<close>

text \<open>
  A Python \<open>str\<close> is modelled as a \<open>string\<close>: a list of code points, each below 256
  (the Latin-1 range, which contains ASCII). The character classes and the case mappings
  below are Python's, restricted to that range. \<open>int\<close> is Python's unbounded integer.
\<close>

definition isspace :: "char \<Rightarrow> bool" where
  \<comment> \<open>\<open>str.isspace\<close> on one code point; also the class \<open>\s\<close> of \<open>re\<close> on a \<open>str\<close> pattern.\<close>
  "isspace c = (of_char c \<in> {9, 10, 11, 12, 13, 28, 29, 30, 31, 32, 133, 160 :: nat})"

definition isdecimal :: "char \<Rightarrow> bool" where
  \<comment> \<open>The class \<open>\d\<close>: the decimal digits, below 256 only \<open>0\<close> to \<open>9\<close>.\<close>
  "isdecimal c = (48 \<le> (of_char c :: nat) \<and> (of_char c :: nat) \<le> 57)"

definition isletter_az :: "char \<Rightarrow> bool" where
  \<comment> \<open>The class \<open>[a-z]\<close>.\<close>
  "isletter_az c = (97 \<le> (of_char c :: nat) \<and> (of_char c :: nat) \<le> 122)"

definition lower_char :: "char \<Rightarrow> char" where
  \<comment> \<open>\<open>str.lower\<close> on one code point: \<open>A\<close>-\<open>Z\<close> and the upper-case letters of Latin-1
      (U+00C0 to U+00DE without the multiplication sign U+00D7) move up by 32.\<close>
  "lower_char c =
     (let n = (of_char c :: nat)
      in if (65 \<le> n \<and> n \<le> 90) \<or> (192 \<le> n \<and> n \<le> 222 \<and> n \<noteq> 215)
         then char_of (n + 32) else c)"

definition lower :: "string \<Rightarrow> string" where
  "lower s = map lower_char s"

definition strip :: "string \<Rightarrow> string" where
  \<comment> \<open>\<open>str.strip()\<close>: leading and trailing whitespace removed.\<close>
  "strip s = rev (dropWhile isspace (rev (dropWhile isspace s)))"

definition str_in :: "string \<Rightarrow> string \<Rightarrow> bool" where
  \<comment> \<open>Python's \<open>sub in s\<close> on strings: \<open>sub\<close> occurs in \<open>s\<close> as a contiguous run.\<close>
  "str_in sub s = sublist sub s"

definition int_of_digits :: "string \<Rightarrow> int" where
  \<comment> \<open>The decimal value of a string of digits: what \<open>int\<close> returns when it returns
      (see \<open>py_int\<close>).\<close>
  "int_of_digits ds = foldl (\<lambda>a c. 10 * a + int (of_char c - 48)) 0 ds"

section \<open>Regular expressions of the query parser\<close>

text \<open>
  A pattern is a backtracking matcher: from a state (the text of group 1 so far, the
  text still to read) it returns every state it can stop in, in the order in which
  Python's \<open>re\<close> tries them. The first one is the match \<open>re\<close> reports.
\<close>

type_synonym mstate = "string \<times> string"
type_synonym matcher = "mstate \<Rightarrow> mstate list"

definition lit :: "string \<Rightarrow> matcher" where
  \<comment> \<open>Literal text.\<close>
  "lit l st = (if prefix l (snd st) then [(fst st, drop (length l) (snd st))] else [])"

fun plus_rests :: "(char \<Rightarrow> bool) \<Rightarrow> string \<Rightarrow> string list" where
  \<comment> \<open>What is left after one or more characters of a class, longest run first.\<close>
  "plus_rests P [] = []"
| "plus_rests P (c # cs) = (if P c then plus_rests P cs @ [cs] else [])"

definition plus_cls :: "(char \<Rightarrow> bool) \<Rightarrow> matcher" where
  \<comment> \<open>\<open>C+\<close>, greedy.\<close>
  "plus_cls P st = map (\<lambda>r. (fst st, r)) (plus_rests P (snd st))"

definition one_cls :: "(char \<Rightarrow> bool) \<Rightarrow> matcher" where
  \<comment> \<open>One character of a class.\<close>
  "one_cls P st =
     (case snd st of [] \<Rightarrow> [] | c # cs \<Rightarrow> if P c then [(fst st, cs)] else [])"

definition alt :: "matcher \<Rightarrow> matcher \<Rightarrow> matcher" where
  \<comment> \<open>\<open>(?:a|b)\<close>: the left branch is tried first.\<close>
  "alt m1 m2 st = m1 st @ m2 st"

definition opt :: "matcher \<Rightarrow> matcher" where
  \<comment> \<open>\<open>(?:a)?\<close>, greedy: with \<open>a\<close> first, then without.\<close>
  "opt m st = m st @ [st]"

definition group :: "matcher \<Rightarrow> matcher" where
  \<comment> \<open>\<open>(a)\<close>: group 1 becomes the text that \<open>a\<close> read.\<close>
  "group m st =
     map (\<lambda>st'. (take (length (snd st) - length (snd st')) (snd st), snd st')) (m st)"

fun seqs :: "matcher list \<Rightarrow> matcher" where
  \<comment> \<open>Concatenation, with backtracking into the earlier parts.\<close>
  "seqs [] st = [st]"
| "seqs (m # ms) st = concat (map (seqs ms) (m st))"

fun re_search :: "matcher \<Rightarrow> string \<Rightarrow> string option" where
  \<comment> \<open>\<open>re.search(pattern, s)\<close>: the match at the leftmost position that has one;
      the result is \<open>group(1)\<close>, or \<open>None\<close> when no position matches.\<close>
  "re_search m [] = (case m ([], []) of [] \<Rightarrow> None | st # _ \<Rightarrow> Some (fst st))"
| "re_search m (c # cs) =
     (case m ([], c # cs) of [] \<Rightarrow> re_search m cs | st # _ \<Rightarrow> Some (fst st))"

definition longer_re :: matcher where
  \<comment> \<open>\<open>longer than\s+(\d+)\s+character\<close>\<close>
  "longer_re = seqs [lit ''longer than'', plus_cls isspace, group (plus_cls isdecimal),
                     plus_cls isspace, lit ''character'']"

definition at_least_re :: matcher where
  \<comment> \<open>\<open>at least\s+(\d+)\s+character\<close>\<close>
  "at_least_re = seqs [lit ''at least'', plus_cls isspace, group (plus_cls isdecimal),
                       plus_cls isspace, lit ''character'']"

definition shorter_re :: matcher where
  \<comment> \<open>\<open>shorter than\s+(\d+)\s+character\<close>\<close>
  "shorter_re = seqs [lit ''shorter than'', plus_cls isspace, group (plus_cls isdecimal),
                      plus_cls isspace, lit ''character'']"

definition at_most_re :: matcher where
  \<comment> \<open>\<open>(?:at most|no more than)\s+(\d+)\s+character\<close>\<close>
  "at_most_re = seqs [alt (lit ''at most'') (lit ''no more than''), plus_cls isspace,
                      group (plus_cls isdecimal), plus_cls isspace, lit ''character'']"

definition letter_re :: matcher where
  \<comment> \<open>\<open>(?:letter|character)\s+([a-z])\<close>\<close>
  "letter_re = seqs [alt (lit ''letter'') (lit ''character''), plus_cls isspace,
                     group (one_cls isletter_az)]"

definition contains_letter_re :: matcher where
  \<comment> \<open>\<open>contain(?:ing)? the letter\s+([a-z])\<close>\<close>
  "contains_letter_re = seqs [lit ''contain'', opt (lit ''ing''), lit '' the letter'',
                              plus_cls isspace, group (one_cls isletter_az)]"

section \<open>Schemas\<close>

datatype http_error =
    HTTPException nat string   \<comment> \<open>\<open>HTTPException(status_code, detail)\<close>\<close>
  | RequestValidationError     \<comment> \<open>a \<open>Query(...)\<close> constraint of the route is violated\<close>
  | ValueError                 \<comment> \<open>\<open>int\<close> raised \<open>ValueError\<close>, which no handler catches\<close>

datatype pydantic_error = ValidationError

record AppliedFilters =
  is_palindrome :: "bool option"
  min_length :: "int option"
  max_length :: "int option"
  word_count :: "int option"
  contains_character :: "string option"

text \<open>
  The keyword arguments of the constructor \<open>AppliedFilters(...)\<close>; also the dictionary
  \<open>inferred\<close> of the parser, whose keys are these five names and which is passed as
  \<open>**inferred\<close>. A key that is missing, or given as \<open>None\<close>, is \<open>None\<close>.
\<close>

record kwargs =
  kw_is_palindrome :: "bool option"
  kw_min_length :: "int option"
  kw_max_length :: "int option"
  kw_word_count :: "int option"
  kw_contains_character :: "string option"

definition empty_dict :: kwargs where
  "empty_dict = \<lparr>kw_is_palindrome = None, kw_min_length = None, kw_max_length = None,
                  kw_word_count = None, kw_contains_character = None\<rparr>"

definition AppliedFilters_init :: "kwargs \<Rightarrow> pydantic_error + AppliedFilters" where
  \<comment> \<open>The only constraint of the schema: \<open>contains_character\<close> has \<open>min_length=1\<close> and
      \<open>max_length=1\<close>. The integer fields are plain \<open>Optional[int]\<close>.\<close>
  "AppliedFilters_init kw =
     (case kw_contains_character kw of
        Some s \<Rightarrow>
          if length s < 1 \<or> 1 < length s then Inl ValidationError
          else Inr \<lparr>is_palindrome = kw_is_palindrome kw, min_length = kw_min_length kw,
                    max_length = kw_max_length kw, word_count = kw_word_count kw,
                    contains_character = Some s\<rparr>
      | None \<Rightarrow>
          Inr \<lparr>is_palindrome = kw_is_palindrome kw, min_length = kw_min_length kw,
               max_length = kw_max_length kw, word_count = kw_word_count kw,
               contains_character = None\<rparr>)"

section \<open>The query parser\<close>

definition py_int :: "string \<Rightarrow> http_error + int" where
  \<comment> \<open>\<open>int(g)\<close> for a group \<open>g\<close> matched by \<open>\d+\<close>. The interpreter converts at most
      4300 digits (the default of \<open>sys.int_max_str_digits\<close>, leading zeros counted) and
      raises \<open>ValueError\<close> on a longer string.\<close>
  "py_int g = (if length g > 4300 then Inl ValueError else Inr (int_of_digits g))"

definition rule_longer :: "string \<Rightarrow> kwargs \<Rightarrow> http_error + kwargs" where
  \<comment> \<open>Rule 3, lines 129 to 131: \<open>inferred["min_length"] = int(group) + 1\<close>.\<close>
  "rule_longer normalized inferred =
     (case re_search longer_re normalized of
        Some g \<Rightarrow>
          (case py_int g of
             Inl e \<Rightarrow> Inl e
           | Inr n \<Rightarrow> Inr (inferred\<lparr>kw_min_length := Some (n + 1)\<rparr>))
      | None \<Rightarrow> Inr inferred)"

definition rule_at_least :: "string \<Rightarrow> kwargs \<Rightarrow> http_error + kwargs" where
  \<comment> \<open>Rule 4, lines 133 to 138:
      \<open>inferred["min_length"] = max(int(group), inferred.get("min_length", 0))\<close>.\<close>
  "rule_at_least normalized inferred =
     (case re_search at_least_re normalized of
        Some g \<Rightarrow>
          (case py_int g of
             Inl e \<Rightarrow> Inl e
           | Inr n \<Rightarrow>
               Inr (inferred\<lparr>kw_min_length :=
                      Some (max n (case kw_min_length inferred of
                                     Some v \<Rightarrow> v | None \<Rightarrow> 0))\<rparr>))
      | None \<Rightarrow> Inr inferred)"

definition rule_shorter :: "string \<Rightarrow> kwargs \<Rightarrow> http_error + kwargs" where
  \<comment> \<open>Rule 5, lines 140 to 142: \<open>inferred["max_length"] = int(group) - 1\<close>.\<close>
  "rule_shorter normalized inferred =
     (case re_search shorter_re normalized of
        Some g \<Rightarrow>
          (case py_int g of
             Inl e \<Rightarrow> Inl e
           | Inr n \<Rightarrow> Inr (inferred\<lparr>kw_max_length := Some (n - 1)\<rparr>))
      | None \<Rightarrow> Inr inferred)"

definition rule_at_most :: "string \<Rightarrow> kwargs \<Rightarrow> http_error + kwargs" where
  \<comment> \<open>Rule 6, lines 144 to 149:
      \<open>inferred["max_length"] = min(int(group), inferred.get("max_length", int(group)))\<close>;
      both calls of \<open>int\<close> read the same group.\<close>
  "rule_at_most normalized inferred =
     (case re_search at_most_re normalized of
        Some g \<Rightarrow>
          (case py_int g of
             Inl e \<Rightarrow> Inl e
           | Inr n \<Rightarrow>
               Inr (inferred\<lparr>kw_max_length :=
                      Some (min n (case kw_max_length inferred of
                                     Some v \<Rightarrow> v | None \<Rightarrow> n))\<rparr>))
      | None \<Rightarrow> Inr inferred)"

definition infer :: "string \<Rightarrow> http_error + kwargs" where
  \<comment> \<open>The nine rules of \<open>_parse_natural_language_query\<close>, in the order of the source,
      on the normalized text. A \<open>ValueError\<close> of \<open>int\<close> ends the function at the rule
      that raised it.\<close>
  "infer normalized =
     (let inferred = empty_dict;
          inferred = (if str_in ''palindrom'' normalized
                      then inferred\<lparr>kw_is_palindrome := Some True\<rparr> else inferred);
          inferred = (if str_in ''single word'' normalized \<or> str_in ''one word'' normalized
                      then inferred\<lparr>kw_word_count := Some 1\<rparr> else inferred)
      in case rule_longer normalized inferred of
           Inl e \<Rightarrow> Inl e
         | Inr inferred \<Rightarrow>
      (case rule_at_least normalized inferred of
           Inl e \<Rightarrow> Inl e
         | Inr inferred \<Rightarrow>
      (case rule_shorter normalized inferred of
           Inl e \<Rightarrow> Inl e
         | Inr inferred \<Rightarrow>
      (case rule_at_most normalized inferred of
           Inl e \<Rightarrow> Inl e
         | Inr inferred \<Rightarrow>
      (let inferred = (case re_search letter_re normalized of
                         Some g \<Rightarrow> inferred\<lparr>kw_contains_character := Some g\<rparr>
                       | None \<Rightarrow> inferred);
           inferred = (if str_in ''first vowel'' normalized
                       then inferred\<lparr>kw_contains_character := Some ''a''\<rparr> else inferred);
           inferred = (case re_search contains_letter_re normalized of
                         Some g \<Rightarrow> inferred\<lparr>kw_contains_character := Some g\<rparr>
                       | None \<Rightarrow> inferred)
       in Inr inferred)))))"

definition extract_query :: "string \<Rightarrow> http_error + kwargs" where
  \<comment> \<open>The first part of \<open>_parse_natural_language_query\<close>: normalization, the rules, and
      the two places that raise status 400.\<close>
  "extract_query query =
     (let normalized = lower (strip query)
      in if normalized = [] then
           Inl (HTTPException 400 ''Unable to parse natural language query'')
         else
           (case infer normalized of
              Inl e \<Rightarrow> Inl e
            | Inr inferred \<Rightarrow>
                if inferred = empty_dict then
                  Inl (HTTPException 400 ''Unable to parse natural language query'')
                else Inr inferred))"

definition parse_natural_language_query :: "string \<Rightarrow> http_error + AppliedFilters" where
  \<comment> \<open>\<open>_parse_natural_language_query\<close>: \<open>extract_query\<close>, then the construction of the
      filter set and the check of the two length bounds.\<close>
  "parse_natural_language_query query =
     (case extract_query query of
        Inl e \<Rightarrow> Inl e
      | Inr inferred \<Rightarrow>
          (case AppliedFilters_init inferred of
             Inl ValidationError \<Rightarrow>
               Inl (HTTPException 422 ''Query parsed but resulted in conflicting filters'')
           | Inr filters \<Rightarrow>
               if (case min_length filters of
                     Some lo \<Rightarrow> (case max_length filters of Some hi \<Rightarrow> lo > hi | None \<Rightarrow> False)
                   | None \<Rightarrow> False)
               then Inl (HTTPException 422
                           ''Query parsed but resulted in conflicting filters'')
               else Inr filters))"


definition numbers_convert :: "string \<Rightarrow> bool" where
  \<comment> \<open>Every number that the patterns of rules 3 to 6 match in the normalized text has
      at most 4300 digits, so that each call of \<open>int\<close> returns.\<close>
  "numbers_convert normalized =
     ((case re_search longer_re normalized of Some g \<Rightarrow> length g \<le> 4300 | None \<Rightarrow> True) \<and>
      (case re_search at_least_re normalized of Some g \<Rightarrow> length g \<le> 4300 | None \<Rightarrow> True) \<and>
      (case re_search shorter_re normalized of Some g \<Rightarrow> length g \<le> 4300 | None \<Rightarrow> True) \<and>
      (case re_search at_most_re normalized of Some g \<Rightarrow> length g \<le> 4300 | None \<Rightarrow> True))"

section \<open>String properties and stored records\<close>

definition casefold_char :: "char \<Rightarrow> nat list" where
  \<comment> \<open>\<open>str.casefold\<close> on one code point, as code points: the sharp s becomes \<open>ss\<close>,
      the micro sign becomes the Greek letter mu (U+03BC), every other character is
      lowered.\<close>
  "casefold_char c =
     (if of_char c = (223 :: nat) then [115, 115]
      else if of_char c = (181 :: nat) then [956]
      else [of_char (lower_char c)])"

definition casefold :: "string \<Rightarrow> nat list" where
  "casefold s = concat (map casefold_char s)"

definition utils_length :: "string \<Rightarrow> int" where
  \<comment> \<open>\<open>utils.length\<close>\<close>
  "utils_length v = int (length v)"

definition utils_is_palindrome :: "string \<Rightarrow> bool" where
  \<comment> \<open>\<open>utils.is_palindrome\<close>\<close>
  "utils_is_palindrome v = (let normalized = casefold (strip v) in normalized = rev normalized)"

definition utils_unique_characters :: "string \<Rightarrow> int" where
  \<comment> \<open>\<open>utils.unique_characters\<close>\<close>
  "utils_unique_characters v = int (length (remdups v))"

fun split_words :: "string \<Rightarrow> string \<Rightarrow> string list" where
  \<comment> \<open>\<open>str.split()\<close>: the maximal runs without whitespace; the first argument is the
      run being read, last character first.\<close>
  "split_words w [] = (if w = [] then [] else [rev w])"
| "split_words w (c # cs) =
     (if isspace c then (if w = [] then split_words [] cs else rev w # split_words [] cs)
      else split_words (c # w) cs)"

definition utils_word_count :: "string \<Rightarrow> int" where
  \<comment> \<open>\<open>utils.word_count\<close>\<close>
  "utils_word_count v = int (length (split_words [] v))"

definition utils_character_frequency_map :: "string \<Rightarrow> (char \<times> int) list" where
  \<comment> \<open>\<open>utils.character_frequency_map\<close>: the keys in the order of first occurrence.\<close>
  "utils_character_frequency_map v =
     map (\<lambda>c. (c, int (count_list v c))) (rev (remdups (rev v)))"

record StringProperties =
  length_prop :: int
  is_palindrome_prop :: bool
  unique_characters_prop :: int
  word_count_prop :: int
  sha256_hash_prop :: string
  character_frequency_map_prop :: "(char \<times> int) list"

record StringResource =
  id_str :: string
  value_str :: string
  properties :: StringProperties
  created_at :: nat

text \<open>
  SHA-256 is not modelled: \<open>sha256_hash\<close> is a parameter of the two builders, and so is
  the clock \<open>utcnow\<close>. A time stamp is a number.
\<close>

definition build_properties :: "(string \<Rightarrow> string) \<Rightarrow> string \<Rightarrow> StringProperties" where
  \<comment> \<open>\<open>_build_properties\<close>\<close>
  "build_properties sha256_hash v =
     \<lparr>length_prop = utils_length v,
      is_palindrome_prop = utils_is_palindrome v,
      unique_characters_prop = utils_unique_characters v,
      word_count_prop = utils_word_count v,
      sha256_hash_prop = sha256_hash v,
      character_frequency_map_prop = utils_character_frequency_map v\<rparr>"

definition build_resource ::
  "(string \<Rightarrow> string) \<Rightarrow> nat \<Rightarrow> string \<Rightarrow> nat option \<Rightarrow> StringResource" where
  \<comment> \<open>\<open>_build_resource\<close>; \<open>created_at or datetime.utcnow()\<close> takes the given time stamp
      when there is one.\<close>
  "build_resource sha256_hash utcnow v created =
     (let props = build_properties sha256_hash v
      in \<lparr>id_str = sha256_hash_prop props, value_str = v, properties = props,
          created_at = (case created of Some t \<Rightarrow> t | None \<Rightarrow> utcnow)\<rparr>)"

section \<open>Evaluation of a filter set\<close>

fun apply_filters_loop ::
  "StringResource list \<Rightarrow> AppliedFilters \<Rightarrow> StringResource list \<Rightarrow> StringResource list" where
  \<comment> \<open>The loop of \<open>_apply_filters\<close>; the last argument is \<open>results\<close>. Each \<open>continue\<close>
      goes on with \<open>results\<close> unchanged.\<close>
  "apply_filters_loop [] filters results = results"
| "apply_filters_loop (record # records) filters results =
     (let props = properties record
      in if (case is_palindrome filters of
               Some b \<Rightarrow> is_palindrome_prop props \<noteq> b | None \<Rightarrow> False)
         then apply_filters_loop records filters results
         else if (case min_length filters of
                    Some n \<Rightarrow> length_prop props < n | None \<Rightarrow> False)
         then apply_filters_loop records filters results
         else if (case max_length filters of
                    Some n \<Rightarrow> length_prop props > n | None \<Rightarrow> False)
         then apply_filters_loop records filters results
         else if (case word_count filters of
                    Some n \<Rightarrow> word_count_prop props \<noteq> n | None \<Rightarrow> False)
         then apply_filters_loop records filters results
         else if (case contains_character filters of
                    Some ch \<Rightarrow> \<not> str_in (lower ch) (lower (value_str record))
                  | None \<Rightarrow> False)
         then apply_filters_loop records filters results
         else apply_filters_loop records filters (results @ [record]))"

definition apply_filters :: "StringResource list \<Rightarrow> AppliedFilters \<Rightarrow> StringResource list" where
  \<comment> \<open>\<open>_apply_filters\<close>\<close>
  "apply_filters records filters = apply_filters_loop records filters []"

definition satisfies :: "AppliedFilters \<Rightarrow> StringResource \<Rightarrow> bool" where
  \<comment> \<open>The specification's reading of a match: the record satisfies every predicate
      that is present; a predicate that is absent asks nothing.\<close>
  "satisfies filters r =
     ((case is_palindrome filters of
         Some b \<Rightarrow> is_palindrome_prop (properties r) = b | None \<Rightarrow> True) \<and>
      (case min_length filters of
         Some n \<Rightarrow> length_prop (properties r) \<ge> n | None \<Rightarrow> True) \<and>
      (case max_length filters of
         Some n \<Rightarrow> length_prop (properties r) \<le> n | None \<Rightarrow> True) \<and>
      (case word_count filters of
         Some n \<Rightarrow> word_count_prop (properties r) = n | None \<Rightarrow> True) \<and>
      (case contains_character filters of
         Some ch \<Rightarrow> str_in (lower ch) (lower (value_str r)) | None \<Rightarrow> True))"

definition empty_filters :: AppliedFilters where
  \<comment> \<open>The filter set with all five fields absent: \<open>AppliedFilters()\<close>.\<close>
  "empty_filters = \<lparr>is_palindrome = None, min_length = None, max_length = None,
                     word_count = None, contains_character = None\<rparr>"

section \<open>The two entry points\<close>

record StringsListResponse =
  data :: "StringResource list"
  count :: int
  filters_applied :: "AppliedFilters option"

record NaturalLanguageInterpretation =
  original :: string
  parsed_filters :: AppliedFilters

record NaturalLanguageFilterResponse =
  nl_data :: "StringResource list"
  nl_count :: int
  interpreted_query :: NaturalLanguageInterpretation

text \<open>
  The store \<open>_STRING_STORE\<close> is a dictionary from the exact text to its record; it is
  an association list in insertion order, and \<open>values()\<close> reads the records in that
  order.
\<close>

type_synonym store = "(string \<times> StringResource) list"

definition store_values :: "store \<Rightarrow> StringResource list" where
  "store_values st = map snd st"

definition parsed_filters_or_none :: "AppliedFilters \<Rightarrow> AppliedFilters option" where
  \<comment> \<open>\<open>_parsed_filters_or_none\<close>: \<open>model_dump(exclude_none=True)\<close> is empty when
      every field is \<open>None\<close>.\<close>
  "parsed_filters_or_none filters =
     (if is_palindrome filters \<noteq> None \<or> min_length filters \<noteq> None \<or>
         max_length filters \<noteq> None \<or> word_count filters \<noteq> None \<or>
         contains_character filters \<noteq> None
      then Some filters else None)"

definition query_params_ok :: "kwargs \<Rightarrow> bool" where
  \<comment> \<open>The constraints in the signature of \<open>list_strings\<close>: \<open>ge=0\<close> on the three
      integers, \<open>min_length=1, max_length=1\<close> on \<open>contains_character\<close>.\<close>
  "query_params_ok kw =
     ((case kw_min_length kw of Some n \<Rightarrow> n \<ge> 0 | None \<Rightarrow> True) \<and>
      (case kw_max_length kw of Some n \<Rightarrow> n \<ge> 0 | None \<Rightarrow> True) \<and>
      (case kw_word_count kw of Some n \<Rightarrow> n \<ge> 0 | None \<Rightarrow> True) \<and>
      (case kw_contains_character kw of Some s \<Rightarrow> length s = 1 | None \<Rightarrow> True))"

definition list_strings :: "store \<Rightarrow> kwargs \<Rightarrow> http_error + StringsListResponse" where
  \<comment> \<open>\<open>list_strings\<close>; the five query parameters are the fields of the second
      argument. The framework checks the constraints of the signature before the body
      runs.\<close>
  "list_strings st params =
     (if \<not> query_params_ok params then Inl RequestValidationError
      else if (case kw_min_length params of
                 Some lo \<Rightarrow> (case kw_max_length params of Some hi \<Rightarrow> lo > hi | None \<Rightarrow> False)
               | None \<Rightarrow> False)
      then Inl (HTTPException 400 ''Invalid query parameter values or types'')
      else
        (case AppliedFilters_init params of
           Inl ValidationError \<Rightarrow>
             Inl (HTTPException 400 ''Invalid query parameter values or types'')
         | Inr filters \<Rightarrow>
             let filtered_records = apply_filters (store_values st) filters
             in Inr \<lparr>data = filtered_records,
                     count = int (length filtered_records),
                     filters_applied = parsed_filters_or_none filters\<rparr>))"

definition filter_by_natural_language ::
  "store \<Rightarrow> string \<Rightarrow> http_error + NaturalLanguageFilterResponse" where
  \<comment> \<open>\<open>filter_by_natural_language\<close>\<close>
  "filter_by_natural_language st query =
     (case parse_natural_language_query query of
        Inl e \<Rightarrow> Inl e
      | Inr filters \<Rightarrow>
          let filtered_records = apply_filters (store_values st) filters;
              interpretation = \<lparr>original = query, parsed_filters = filters\<rparr>
          in Inr \<lparr>nl_data = filtered_records,
                  nl_count = int (length filtered_records),
                  interpreted_query = interpretation\<rparr>)"

section \<open>What the rules leave in each field\<close>

text \<open>
  The rules return exactly when every matched number converts, and then each field is
  a function of the matches; otherwise \<open>int\<close> raises.
\<close>

lemma infer_eq:
  "infer n =
     (if numbers_convert n then
        Inr \<lparr>kw_is_palindrome = (if str_in ''palindrom'' n then Some True else None),
             kw_min_length =
               (case re_search at_least_re n of
                  Some g \<Rightarrow>
                    Some (max (int_of_digits g)
                              (case re_search longer_re n of
                                 Some h \<Rightarrow> int_of_digits h + 1 | None \<Rightarrow> 0))
                | None \<Rightarrow>
                    (case re_search longer_re n of
                       Some h \<Rightarrow> Some (int_of_digits h + 1) | None \<Rightarrow> None)),
             kw_max_length =
               (case re_search at_most_re n of
                  Some g \<Rightarrow>
                    Some (min (int_of_digits g)
                              (case re_search shorter_re n of
                                 Some h \<Rightarrow> int_of_digits h - 1 | None \<Rightarrow> int_of_digits g))
                | None \<Rightarrow>
                    (case re_search shorter_re n of
                       Some h \<Rightarrow> Some (int_of_digits h - 1) | None \<Rightarrow> None)),
             kw_word_count =
               (if str_in ''single word'' n \<or> str_in ''one word'' n then Some 1 else None),
             kw_contains_character =
               (case re_search contains_letter_re n of
                  Some g \<Rightarrow> Some g
                | None \<Rightarrow>
                    if str_in ''first vowel'' n then Some ''a'' else re_search letter_re n)\<rparr>
      else Inl ValueError)"
  by (simp add: infer_def numbers_convert_def rule_longer_def rule_at_least_def
        rule_shorter_def rule_at_most_def py_int_def Let_def empty_dict_def
        split: option.splits)

lemma infer_returns: "numbers_convert n \<Longrightarrow> \<exists>m. infer n = Inr m"
  by (simp add: infer_eq)

lemma infer_raises: "\<not> numbers_convert n \<Longrightarrow> infer n = Inl ValueError"
  by (simp add: infer_eq)

lemma infer_Inr_numbers_convert: "infer n = Inr m \<Longrightarrow> numbers_convert n"
  by (cases "numbers_convert n") (simp_all add: infer_raises)


lemma infer_is_palindrome:
  "infer n = Inr m \<Longrightarrow>
     kw_is_palindrome m = (if str_in ''palindrom'' n then Some True else None)"
  by (auto simp: infer_eq split: if_splits)


lemma infer_min_length:
  "infer n = Inr m \<Longrightarrow>
     kw_min_length m =
       (case re_search at_least_re n of
          Some g \<Rightarrow>
            Some (max (int_of_digits g)
                      (case re_search longer_re n of
                         Some h \<Rightarrow> int_of_digits h + 1 | None \<Rightarrow> 0))
        | None \<Rightarrow>
            (case re_search longer_re n of
               Some h \<Rightarrow> Some (int_of_digits h + 1) | None \<Rightarrow> None))"
  by (auto simp: infer_eq split: if_splits)


lemma infer_contains_character:
  "infer n = Inr m \<Longrightarrow>
     kw_contains_character m =
       (case re_search contains_letter_re n of
          Some g \<Rightarrow> Some g
        | None \<Rightarrow> if str_in ''first vowel'' n then Some ''a'' else re_search letter_re n)"
  by (auto simp: infer_eq split: if_splits)





section \<open>The captured letter is one character\<close>

lemma group_one_cls_length:
  "st' \<in> set (group (one_cls P) st) \<Longrightarrow> length (fst st') = 1"
  by (cases "snd st") (auto simp: group_def one_cls_def split: if_splits)

lemma seqs_last:
  "(\<And>st st'. st' \<in> set (m st) \<Longrightarrow> Q st') \<Longrightarrow> st' \<in> set (seqs (ms @ [m]) st) \<Longrightarrow> Q st'"
  by (induction ms arbitrary: st) auto

lemma re_search_fst:
  assumes "\<And>st st'. st' \<in> set (m st) \<Longrightarrow> Q (fst st')"
  shows "re_search m s = Some g \<Longrightarrow> Q g"
proof (induction s)
  case Nil
  then obtain st' rest where "m ([], []) = st' # rest" "g = fst st'"
    by (auto split: list.splits)
  then show ?case using assms [of st' "([], [])"] by simp
next
  case (Cons c cs)
  show ?case
  proof (cases "m ([], c # cs)")
    case Nil
    with Cons show ?thesis by simp
  next
    case (Cons st' rest)
    with Cons.prems have "g = fst st'" by simp
    then show ?thesis using assms [of st' "([], c # cs)"] Cons by simp
  qed
qed

lemma letter_re_length: "re_search letter_re n = Some g \<Longrightarrow> length g = 1"
proof (rule re_search_fst [where m = letter_re and Q = "\<lambda>g. length g = 1"])
  fix st st' :: mstate
  assume "st' \<in> set (letter_re st)"
  then have "st' \<in> set (seqs ([alt (lit ''letter'') (lit ''character''), plus_cls isspace]
                              @ [group (one_cls isletter_az)]) st)"
    by (simp add: letter_re_def)
  then show "length (fst st') = 1"
    by (rule seqs_last [rotated]) (rule group_one_cls_length)
qed

lemma contains_letter_re_length:
  "re_search contains_letter_re n = Some g \<Longrightarrow> length g = 1"
proof (rule re_search_fst [where m = contains_letter_re and Q = "\<lambda>g. length g = 1"])
  fix st st' :: mstate
  assume "st' \<in> set (contains_letter_re st)"
  then have "st' \<in> set (seqs ([lit ''contain'', opt (lit ''ing''), lit '' the letter'',
                               plus_cls isspace] @ [group (one_cls isletter_az)]) st)"
    by (simp add: contains_letter_re_def)
  then show "length (fst st') = 1"
    by (rule seqs_last [rotated]) (rule group_one_cls_length)
qed

lemma infer_contains_character_length:
  "infer n = Inr m \<Longrightarrow> kw_contains_character m = Some s \<Longrightarrow> length s = 1"
  by (auto simp: infer_contains_character letter_re_length contains_letter_re_length
        split: option.splits if_splits)

text \<open>
  So the schema accepts every dictionary the rules produce: the \<open>except\<close> branch of the
  parser is never taken, and a negative bound passes.
\<close>

lemma AppliedFilters_init_infer:
  "infer n = Inr m \<Longrightarrow>
     AppliedFilters_init m =
       Inr \<lparr>is_palindrome = kw_is_palindrome m, min_length = kw_min_length m,
            max_length = kw_max_length m, word_count = kw_word_count m,
            contains_character = kw_contains_character m\<rparr>"
  using infer_contains_character_length [of n m]
  by (auto simp: AppliedFilters_init_def split: option.splits)

section \<open>A number is matched whole, however long\<close>








section \<open>Evaluation is a stable, conjunctive filter\<close>

lemma apply_filters_loop_filter:
  "apply_filters_loop rs f acc = acc @ filter (satisfies f) rs"
  by (induction rs arbitrary: acc) (auto simp: satisfies_def Let_def split: option.splits)

lemma apply_filters_filter: "apply_filters rs f = filter (satisfies f) rs"
  by (simp add: apply_filters_def apply_filters_loop_filter)

lemma str_in_single: "str_in [c] s \<longleftrightarrow> c \<in> set s"
  unfolding str_in_def by (induction s) (auto simp: sublist_Cons_right)

text \<open>
  C4. For every filter set and every sequence of records, evaluation returns exactly
  the records that satisfy every predicate that is present, in the order of the input.
  The records built from ``civic'', ``hello'' and ``racecar'', filtered by
  \<open>is_palindrome = true\<close>, give the records of ``civic'' and ``racecar'', in that order.
\<close>

theorem C4_apply_filters_conjunctive:
  "apply_filters records filters = filter (satisfies filters) records \<and>
   apply_filters
       (map (\<lambda>v. build_resource sha256_hash utcnow v None) [''civic'', ''hello'', ''racecar''])
       (empty_filters\<lparr>is_palindrome := Some True\<rparr>)
     = map (\<lambda>v. build_resource sha256_hash utcnow v None) [''civic'', ''racecar'']"
proof -
  have "apply_filters
       (map (\<lambda>v. build_resource sha256_hash utcnow v None) [''civic'', ''hello'', ''racecar''])
       (empty_filters\<lparr>is_palindrome := Some True\<rparr>)
     = map (\<lambda>v. build_resource sha256_hash utcnow v None) [''civic'', ''racecar'']"
    by (simp add: apply_filters_def empty_filters_def build_resource_def
          build_properties_def utils_is_palindrome_def strip_def isspace_def casefold_def
          casefold_char_def lower_char_def Let_def)
  moreover have "apply_filters records filters = filter (satisfies filters) records"
    by (rule apply_filters_filter)
  ultimately show ?thesis by blast
qed

text \<open>
  C5. Evaluating the empty filter set (all five fields absent) returns the sequence of
  records unchanged: the same members in the same order.
\<close>

theorem C5_empty_filter_identity: "apply_filters records empty_filters = records"
  by (simp add: apply_filters_filter satisfies_def empty_filters_def)

text \<open>
  C6. A filter set with only \<open>contains_character = X\<close>, for a single character \<open>X\<close>,
  keeps exactly the records in whose lowered text the lowered \<open>X\<close> occurs. The filter
  \<open>contains_character = A\<close> keeps the record of ``banana''.
\<close>

theorem C6_contains_character_case_insensitive:
  "apply_filters records (empty_filters\<lparr>contains_character := Some [X]\<rparr>)
     = filter (\<lambda>r. lower_char X \<in> set (lower (value_str r))) records \<and>
   apply_filters [build_resource sha256_hash utcnow ''banana'' None]
       (empty_filters\<lparr>contains_character := Some ''A''\<rparr>)
     = [build_resource sha256_hash utcnow ''banana'' None]"
proof -
  have sat: "satisfies (empty_filters\<lparr>contains_character := Some [X]\<rparr>)
               = (\<lambda>r. lower_char X \<in> set (lower (value_str r)))"
    by (rule ext) (simp add: satisfies_def empty_filters_def lower_def str_in_single)
  have la: "lower ''A'' = ''a''"
    by code_simp
  have lb: "str_in ''a'' (lower ''banana'')"
    by code_simp
  have "apply_filters [build_resource sha256_hash utcnow ''banana'' None]
       (empty_filters\<lparr>contains_character := Some ''A''\<rparr>)
     = [build_resource sha256_hash utcnow ''banana'' None]"
    by (simp add: apply_filters_filter satisfies_def empty_filters_def
          build_resource_def Let_def la lb)
  moreover have "apply_filters records (empty_filters\<lparr>contains_character := Some [X]\<rparr>)
     = filter (\<lambda>r. lower_char X \<in> set (lower (value_str r))) records"
    by (simp add: apply_filters_filter sat)
  ultimately show ?thesis by blast
qed

section \<open>Extraction\<close>

text \<open>
  C1 (amended). The query ``longer than 3 characters, at least 5 characters'' yields
  \<open>min_length = 5\<close>, and so does ``at least 5 characters, longer than 3 characters'':
  the rules run in their fixed order, whatever the order of the phrases. Whenever rule 3
  matches \<open>N\<close> and rule 4 matches \<open>M\<close>, and every number matched by rules 3 to 6 has at
  most 4300 digits, the rules return with \<open>min_length = max(M, N + 1)\<close>.
\<close>

theorem C1_min_length_fixed_rule_order:
  "(re_search longer_re normalized = Some a \<and> re_search at_least_re normalized = Some b \<and>
    numbers_convert normalized
      \<longrightarrow> (\<exists>inferred. infer normalized = Inr inferred \<and>
             kw_min_length inferred =
               Some (max (int_of_digits b) (int_of_digits a + 1)))) \<and>
   extract_query ''longer than 3 characters, at least 5 characters''
     = Inr \<lparr>kw_is_palindrome = None, kw_min_length = Some 5, kw_max_length = None,
            kw_word_count = None, kw_contains_character = None\<rparr> \<and>
   extract_query ''at least 5 characters, longer than 3 characters''
     = Inr \<lparr>kw_is_palindrome = None, kw_min_length = Some 5, kw_max_length = None,
            kw_word_count = None, kw_contains_character = None\<rparr>"
proof -
  have "extract_query ''longer than 3 characters, at least 5 characters''
     = Inr \<lparr>kw_is_palindrome = None, kw_min_length = Some 5, kw_max_length = None,
            kw_word_count = None, kw_contains_character = None\<rparr>"
    by code_simp
  moreover have "extract_query ''at least 5 characters, longer than 3 characters''
     = Inr \<lparr>kw_is_palindrome = None, kw_min_length = Some 5, kw_max_length = None,
            kw_word_count = None, kw_contains_character = None\<rparr>"
    by code_simp
  moreover have "\<exists>inferred. infer normalized = Inr inferred \<and>
             kw_min_length inferred =
               Some (max (int_of_digits b) (int_of_digits a + 1))"
    if h: "re_search longer_re normalized = Some a"
          "re_search at_least_re normalized = Some b" "numbers_convert normalized"
  proof -
    from h(3) obtain m where m: "infer normalized = Inr m"
      using infer_returns by blast
    from infer_min_length [OF m] h(1,2)
    have "kw_min_length m = Some (max (int_of_digits b) (int_of_digits a + 1))"
      by simp
    with m show ?thesis by blast
  qed
  ultimately show ?thesis by blast
qed

theorem C1_min_length_fixed_rule_order_witness:
  "re_search longer_re ''at least 5 characters, longer than 3 characters'' = Some ''3'' \<and>
   re_search at_least_re ''at least 5 characters, longer than 3 characters'' = Some ''5'' \<and>
   numbers_convert ''at least 5 characters, longer than 3 characters'' \<and>
   (\<exists>inferred. infer ''at least 5 characters, longer than 3 characters'' = Inr inferred \<and>
      kw_min_length inferred = Some 5)"
proof -
  have h1: "re_search longer_re ''at least 5 characters, longer than 3 characters''
              = Some ''3''"
    by code_simp
  have h2: "re_search at_least_re ''at least 5 characters, longer than 3 characters''
              = Some ''5''"
    by code_simp
  have h3: "numbers_convert ''at least 5 characters, longer than 3 characters''"
    by code_simp
  have v: "max (int_of_digits ''5'') (int_of_digits ''3'' + 1) = 5"
    by code_simp
  from C1_min_length_fixed_rule_order
         [of "''at least 5 characters, longer than 3 characters''" "''3''" "''5''"]
       h1 h2 h3 v
  show ?thesis by simp
qed

text \<open>
  The two queries as the specification writes them, with no ``character'' after
  ``at least 5'': rule 4 does not fire, and rule 3 alone gives \<open>min_length = 4\<close>.
\<close>

theorem C1_at_least_without_unit_counterexample:
  "extract_query ''longer than 3 characters, at least 5''
     = Inr \<lparr>kw_is_palindrome = None, kw_min_length = Some 4, kw_max_length = None,
            kw_word_count = None, kw_contains_character = None\<rparr> \<and>
   extract_query ''at least 5, longer than 3 characters''
     = Inr \<lparr>kw_is_palindrome = None, kw_min_length = Some 4, kw_max_length = None,
            kw_word_count = None, kw_contains_character = None\<rparr>"
  by code_simp







section \<open>Assembly\<close>

text \<open>
  C2. A negative length is to be refused on both entry points. The route
  \<open>list_strings\<close> refuses \<open>max_length = -1\<close>; the parser accepts the query ``shorter than
  0 characters'', whose rule gives \<open>max_length = -1\<close>, and returns that filter set.
\<close>

theorem C2_negative_max_length_from_text:
  "parse_natural_language_query ''shorter than 0 characters''
     = Inr \<lparr>is_palindrome = None, min_length = None, max_length = Some (- 1),
            word_count = None, contains_character = None\<rparr> \<and>
   list_strings []
       \<lparr>kw_is_palindrome = None, kw_min_length = None, kw_max_length = Some (- 1),
        kw_word_count = None, kw_contains_character = None\<rparr>
     = Inl RequestValidationError"
  by code_simp

text \<open>
  C3. A filter set with both bounds present and \<open>min_length > max_length\<close> is refused on
  both entry points. From text, the parser answers status 422 ``Query parsed but
  resulted in conflicting filters''. On the route \<open>list_strings\<close> the call fails always,
  and with status 400 ``Invalid query parameter values or types'' when each field is
  valid on its own, as for \<open>min_length = 5, max_length = 3\<close>.
\<close>

theorem C3_conflicting_bounds_rejected:
  "(extract_query query = Inr inferred \<and> kw_min_length inferred = Some lo \<and>
      kw_max_length inferred = Some hi \<and> lo > hi
      \<longrightarrow> parse_natural_language_query query =
            Inl (HTTPException 422 ''Query parsed but resulted in conflicting filters'')) \<and>
   (kw_min_length params = Some lo \<and> kw_max_length params = Some hi \<and> lo > hi
      \<longrightarrow> (\<exists>e. list_strings st params = Inl e)) \<and>
   (query_params_ok params \<and> kw_min_length params = Some lo \<and>
      kw_max_length params = Some hi \<and> lo > hi
      \<longrightarrow> list_strings st params =
            Inl (HTTPException 400 ''Invalid query parameter values or types'')) \<and>
   list_strings st (empty_dict\<lparr>kw_min_length := Some 5, kw_max_length := Some 3\<rparr>)
     = Inl (HTTPException 400 ''Invalid query parameter values or types'')"
proof -
  have nl: "parse_natural_language_query query =
            Inl (HTTPException 422 ''Query parsed but resulted in conflicting filters'')"
    if "extract_query query = Inr inferred" "kw_min_length inferred = Some lo"
       "kw_max_length inferred = Some hi" "lo > hi"
    using that
    by (auto simp: parse_natural_language_query_def AppliedFilters_init_def
          split: sum.splits pydantic_error.splits option.splits)
  have ls: "list_strings st params =
            Inl (HTTPException 400 ''Invalid query parameter values or types'')"
    if "query_params_ok params" "kw_min_length params = Some lo"
       "kw_max_length params = Some hi" "lo > hi"
    using that by (simp add: list_strings_def)
  have ls': "\<exists>e. list_strings st params = Inl e"
    if "kw_min_length params = Some lo" "kw_max_length params = Some hi" "lo > hi"
    using that by (simp add: list_strings_def)
  have ex: "list_strings st (empty_dict\<lparr>kw_min_length := Some 5, kw_max_length := Some 3\<rparr>)
     = Inl (HTTPException 400 ''Invalid query parameter values or types'')"
    by (simp add: list_strings_def query_params_ok_def empty_dict_def)
  from nl ls ls' ex show ?thesis by blast
qed

theorem C3_conflicting_bounds_rejected_witness:
  "extract_query ''at least 5 characters and at most 3 characters''
     = Inr (empty_dict\<lparr>kw_min_length := Some 5, kw_max_length := Some 3\<rparr>) \<and>
   parse_natural_language_query ''at least 5 characters and at most 3 characters''
     = Inl (HTTPException 422 ''Query parsed but resulted in conflicting filters'') \<and>
   query_params_ok (empty_dict\<lparr>kw_min_length := Some 5, kw_max_length := Some 3\<rparr>) \<and>
   list_strings [] (empty_dict\<lparr>kw_min_length := Some 5, kw_max_length := Some 3\<rparr>)
     = Inl (HTTPException 400 ''Invalid query parameter values or types'')"
proof -
  have h1: "extract_query ''at least 5 characters and at most 3 characters''
     = Inr (empty_dict\<lparr>kw_min_length := Some 5, kw_max_length := Some 3\<rparr>)"
    by code_simp
  have h2: "query_params_ok (empty_dict\<lparr>kw_min_length := Some 5, kw_max_length := Some 3\<rparr>)"
    by (simp add: query_params_ok_def empty_dict_def)
  have h3: "kw_min_length (empty_dict\<lparr>kw_min_length := Some 5, kw_max_length := Some 3\<rparr>)
              = Some 5"
           "kw_max_length (empty_dict\<lparr>kw_min_length := Some 5, kw_max_length := Some 3\<rparr>)
              = Some 3"
           "(5 :: int) > 3"
    by simp_all
  from C3_conflicting_bounds_rejected
         [of "''at least 5 characters and at most 3 characters''"
             "empty_dict\<lparr>kw_min_length := Some 5, kw_max_length := Some 3\<rparr>" 5 3
             "empty_dict\<lparr>kw_min_length := Some 5, kw_max_length := Some 3\<rparr>" "[]"]
       h1 h2 h3
  show ?thesis by blast
qed

section \<open>The parsed filter set and the responses\<close>

text \<open>
  C9. In every filter set the parser returns, \<open>is_palindrome\<close> is absent or true: no
  query yields \<open>is_palindrome = false\<close>.
\<close>

theorem C9_is_palindrome_never_false:
  "parse_natural_language_query query = Inr filters \<Longrightarrow>
     is_palindrome filters = None \<or> is_palindrome filters = Some True"
proof -
  assume h: "parse_natural_language_query query = Inr filters"
  then obtain inferred where e: "extract_query query = Inr inferred"
    and a: "AppliedFilters_init inferred = Inr filters"
    by (auto simp: parse_natural_language_query_def
          split: sum.splits pydantic_error.splits if_splits)
  from e have i: "infer (lower (strip query)) = Inr inferred"
    by (auto simp: extract_query_def Let_def split: if_splits sum.splits)
  from a have "is_palindrome filters = kw_is_palindrome inferred"
    by (auto simp: AppliedFilters_init_def split: option.splits if_splits)
  with infer_is_palindrome [OF i] show ?thesis by simp
qed

theorem C9_is_palindrome_never_false_witness:
  "parse_natural_language_query ''All Palindromes''
     = Inr (empty_filters\<lparr>is_palindrome := Some True\<rparr>) \<and>
   (is_palindrome (empty_filters\<lparr>is_palindrome := Some True\<rparr>) = None \<or>
    is_palindrome (empty_filters\<lparr>is_palindrome := Some True\<rparr>) = Some True)"
proof -
  have h: "parse_natural_language_query ''All Palindromes''
     = Inr (empty_filters\<lparr>is_palindrome := Some True\<rparr>)"
    by code_simp
  from h C9_is_palindrome_never_false [OF h] show ?thesis by blast
qed

text \<open>
  C10. In every successful response of either entry point, \<open>count\<close> is the number of
  records in \<open>data\<close>.
\<close>

theorem C10_count_is_length_of_data:
  "(list_strings st params = Inr resp \<longrightarrow> count resp = int (length (data resp))) \<and>
   (filter_by_natural_language st query = Inr nl_resp \<longrightarrow>
      nl_count nl_resp = int (length (nl_data nl_resp)))"
  by (auto simp: list_strings_def filter_by_natural_language_def Let_def
        split: sum.splits pydantic_error.splits if_splits)

text \<open>
  The witness runs both entry points on a store of three records, with the identity
  standing for the hash and 0 for the clock.
\<close>

theorem C10_count_is_length_of_data_witness:
  "list_strings
       (map (\<lambda>v. (v, build_resource (\<lambda>v. v) 0 v None)) [''civic'', ''hello'', ''racecar''])
       (empty_dict\<lparr>kw_is_palindrome := Some True\<rparr>)
     = Inr \<lparr>data = map (\<lambda>v. build_resource (\<lambda>v. v) 0 v None) [''civic'', ''racecar''],
        count = 2,
        filters_applied = Some (empty_filters\<lparr>is_palindrome := Some True\<rparr>)\<rparr> \<and>
   count \<lparr>data = map (\<lambda>v. build_resource (\<lambda>v. v) 0 v None) [''civic'', ''racecar''],
        count = 2,
        filters_applied = Some (empty_filters\<lparr>is_palindrome := Some True\<rparr>)\<rparr>
     = int (length (data \<lparr>data = map (\<lambda>v. build_resource (\<lambda>v. v) 0 v None) [''civic'', ''racecar''],
        count = 2,
        filters_applied = Some (empty_filters\<lparr>is_palindrome := Some True\<rparr>)\<rparr>)) \<and>
   filter_by_natural_language
       (map (\<lambda>v. (v, build_resource (\<lambda>v. v) 0 v None)) [''civic'', ''hello'', ''racecar''])
       ''palindromes''
     = Inr \<lparr>nl_data = map (\<lambda>v. build_resource (\<lambda>v. v) 0 v None) [''civic'', ''racecar''],
        nl_count = 2,
        interpreted_query =
          \<lparr>original = ''palindromes'',
           parsed_filters = empty_filters\<lparr>is_palindrome := Some True\<rparr>\<rparr>\<rparr> \<and>
   nl_count \<lparr>nl_data = map (\<lambda>v. build_resource (\<lambda>v. v) 0 v None) [''civic'', ''racecar''],
        nl_count = 2,
        interpreted_query =
          \<lparr>original = ''palindromes'',
           parsed_filters = empty_filters\<lparr>is_palindrome := Some True\<rparr>\<rparr>\<rparr>
     = int (length (nl_data \<lparr>nl_data = map (\<lambda>v. build_resource (\<lambda>v. v) 0 v None) [''civic'', ''racecar''],
        nl_count = 2,
        interpreted_query =
          \<lparr>original = ''palindromes'',
           parsed_filters = empty_filters\<lparr>is_palindrome := Some True\<rparr>\<rparr>\<rparr>))"
proof -
  have h1: "list_strings
       (map (\<lambda>v. (v, build_resource (\<lambda>v. v) 0 v None)) [''civic'', ''hello'', ''racecar''])
       (empty_dict\<lparr>kw_is_palindrome := Some True\<rparr>)
     = Inr \<lparr>data = map (\<lambda>v. build_resource (\<lambda>v. v) 0 v None) [''civic'', ''racecar''],
        count = 2,
        filters_applied = Some (empty_filters\<lparr>is_palindrome := Some True\<rparr>)\<rparr>"
    by code_simp
  have h2: "filter_by_natural_language
       (map (\<lambda>v. (v, build_resource (\<lambda>v. v) 0 v None)) [''civic'', ''hello'', ''racecar''])
       ''palindromes''
     = Inr \<lparr>nl_data = map (\<lambda>v. build_resource (\<lambda>v. v) 0 v None) [''civic'', ''racecar''],
        nl_count = 2,
        interpreted_query =
          \<lparr>original = ''palindromes'',
           parsed_filters = empty_filters\<lparr>is_palindrome := Some True\<rparr>\<rparr>\<rparr>"
    by code_simp
  from C10_count_is_length_of_data [THEN conjunct1, rule_format, OF h1]
       C10_count_is_length_of_data [THEN conjunct2, rule_format, OF h2] h1 h2
  show ?thesis by blast
qed

end
